theory Spec2Isabelle
  imports Main
begin

section \<open>The job record\<close>

text \<open>
  Modelled from the spec: the declaration of the \<open>Job\<close> struct and of the status constants
  \<open>JSRunning\<close>, \<open>JSFinished\<close>, \<open>JSFailed\<close> and \<open>JSCanceled\<close> is not among the source files;
  \<open>http_cmd_handler.go\<close> only uses them. The constants become a datatype, the struct a record
  with the fields the handlers and the worker read and write.
\<close>

datatype JobStatus = JSRunning | JSFinished | JSFailed | JSCanceled

text \<open>
  Times are seconds since the epoch, so \<open>time.Unix(0, 0)\<close> is \<open>0\<close>. The field \<open>cancelFunc\<close> of
  the struct is a capability, not data: invoking it is an effect of the cancel handler
  (see \<open>InvokeCancel\<close> below) and what the worker sees of it is part of its \<open>World\<close>.
  The field \<open>Id\<close> is named \<open>Id_job\<close> here, since \<open>Id\<close> is the identity relation of HOL.
\<close>

record Job =
  Id_job :: string
  Cmd :: string
  Dir :: string
  Env :: "string list"
  Status :: JobStatus
  CreateTime :: int
  FinishTime :: int
  Pid :: int
  Stdout :: string
  Stderr :: string
  ExitCode :: int
  Error :: string

definition terminal :: "JobStatus \<Rightarrow> bool" where
  "terminal s = (s = JSFinished \<or> s = JSFailed \<or> s = JSCanceled)"

section \<open>Errors of the process library\<close>

text \<open>
  What \<open>cmd.Start\<close> and \<open>cmd.Wait\<close> of \<open>os/exec\<close> can return. A \<open>nil\<close> error is \<open>None\<close> of
  \<open>error option\<close>. An \<open>*exec.ExitError\<close> wraps the state of the ended process: it either
  exited with a status, or was ended by a signal (named, with the core-dump mark).
\<close>

datatype ProcessState = ExitedWith int | Signaled string bool

datatype error = ExitError ProcessState | ErrorString string

fun Exited :: "ProcessState \<Rightarrow> bool" where
  "Exited (ExitedWith c) = True"
| "Exited (Signaled s d) = False"

text \<open>\<open>ExitStatus\<close> of a wait status is \<open>-1\<close> when the process did not exit.\<close>

fun ExitStatus :: "ProcessState \<Rightarrow> int" where
  "ExitStatus (ExitedWith c) = c"
| "ExitStatus (Signaled s d) = -1"

text \<open>Decimal rendering of an integer, as the library's \<open>itoa\<close> does it.\<close>

function digits :: "nat \<Rightarrow> string" where
  "digits n = (if n < 10 then [''0123456789'' ! n]
               else digits (n div 10) @ [''0123456789'' ! (n mod 10)])"
  by pat_completeness auto
termination
  by (relation "measure (\<lambda>n. n)") auto

declare digits.simps [simp del]

definition itoa :: "int \<Rightarrow> string" where
  "itoa i = (if i < 0 then ''-'' @ digits (nat (- i)) else digits (nat i))"

text \<open>
  \<open>err.Error()\<close>. For an \<open>*exec.ExitError\<close> it is the rendering of the process state by
  \<open>os.ProcessState.String\<close> (\<open>exit status 7\<close>, \<open>signal: killed\<close>); any other error
  carries its text.
\<close>

fun ProcessState_String :: "ProcessState \<Rightarrow> string" where
  "ProcessState_String (ExitedWith c) = ''exit status '' @ itoa c"
| "ProcessState_String (Signaled s d) =
     ''signal: '' @ s @ (if d then '' (core dumped)'' else [])"

fun Error_text :: "error \<Rightarrow> string" where
  "Error_text (ExitError ps) = ProcessState_String ps"
| "Error_text (ErrorString s) = s"

section \<open>The launch configuration\<close>

text \<open>
  \<open>exec.Cmd\<close>, with the fields the worker sets. A Go slice that may be \<open>nil\<close> is a
  \<open>string list option\<close>: \<open>cmd.Env\<close> starts as \<open>nil\<close>, and \<open>append\<close> of no element returns
  its first argument as it is.
\<close>

record ExecCmd =
  Args :: "string list"
  cmd_Dir :: string
  cmd_Env :: "string list option"

definition append_slice :: "string list option \<Rightarrow> string list \<Rightarrow> string list option" where
  "append_slice s xs =
     (case s of
        None \<Rightarrow> (if xs = [] then None else Some xs)
      | Some ys \<Rightarrow> Some (ys @ xs))"

definition exec_Command :: "string list \<Rightarrow> ExecCmd" where
  "exec_Command args = \<lparr>Args = args, cmd_Dir = [], cmd_Env = None\<rparr>"

definition buildCmd :: "string \<Rightarrow> Job \<Rightarrow> ExecCmd" where
  "buildCmd goos job =
     (let cmd = (if goos = ''windows'' then exec_Command [''cmd'', ''/c'', Cmd job]
                 else exec_Command [''sh'', ''-c'', Cmd job])
      in cmd\<lparr>cmd_Dir := Dir job, cmd_Env := append_slice (cmd_Env cmd) (Env job)\<rparr>)"

section \<open>The environment of the child\<close>


text \<open>\<open>strings.Index(s, "=")\<close>: the position of the first \<open>=\<close>, \<open>None\<close> for \<open>-1\<close>.\<close>

fun Index_eq :: "string \<Rightarrow> nat option" where
  "Index_eq [] = None"
| "Index_eq (c # cs) = (if c = CHR ''='' then Some 0 else map_option Suc (Index_eq cs))"

text \<open>
  Where the key of an entry ends. A leading \<open>=\<close> is part of the key: the search goes on
  behind it, and when there is no further \<open>=\<close> the key is empty.
\<close>

definition key_index :: "string \<Rightarrow> nat option" where
  "key_index kv =
     (case Index_eq kv of
        None \<Rightarrow> None
      | Some i \<Rightarrow>
          if i = 0 then (case Index_eq (tl kv) of None \<Rightarrow> Some 0 | Some j \<Rightarrow> Some (j + 1))
          else Some i)"

definition entry_key :: "bool \<Rightarrow> (string \<Rightarrow> string) \<Rightarrow> string \<Rightarrow> string option" where
  "entry_key caseInsensitive lower kv =
     (case key_index kv of
        None \<Rightarrow> None
      | Some i \<Rightarrow> Some (if caseInsensitive then lower (take i kv) else take i kv))"












section \<open>The worker\<close>

text \<open>
  Everything \<open>cmdWorker\<close> gets from outside the job: the platform, what \<open>cmd.Start\<close> and
  \<open>cmd.Wait\<close> return, the clock at the deferred cleanup, what the child writes to its
  standard output and standard error, and how
  the cancellation of the job falls relative to this run:
  \<^item> \<open>NeverInvoked\<close>: the cancellation handle of the job is not invoked during the run;
  \<^item> \<open>WatcherCanceled\<close>: the watcher took the \<open>ctx.Done()\<close> branch, so \<open>canceled\<close> is
    \<open>true\<close> when the worker tests it, and \<open>cmd.Process.Kill()\<close> was called;
  \<^item> \<open>InvokedUnseen\<close>: the handle was invoked, but the watcher took the \<open>doneC\<close> branch.
\<close>

datatype Cancellation = NeverInvoked | WatcherCanceled | InvokedUnseen

record World =
  goos :: string
  startResult :: "error + int"
  waitResult :: "error option"
  cancellation :: Cancellation
  now :: int
  stdout_buf :: string
  stderr_buf :: string

definition canceled :: "World \<Rightarrow> bool" where
  "canceled w = (cancellation w = WatcherCanceled)"

text \<open>
  The run of the worker is the sequence of its steps in program order: the writes to the
  fields of the job, and the steps on the process in between. Logging is left out.
\<close>

datatype Event =
    EvStart ExecCmd "error + int"
  | WriteError string
  | WriteStatus JobStatus
  | WritePid int
  | WriteExitCode int
  | EvKill
  | EvWaitReturned "error option"
  | EvCloseDoneC
  | EvPanic
  | WriteFinishTime int
  | WriteStdout string
  | WriteStderr string

fun apply_event :: "Job \<Rightarrow> Event \<Rightarrow> Job" where
  "apply_event j (WriteError s) = j\<lparr>Error := s\<rparr>"
| "apply_event j (WriteStatus s) = j\<lparr>Status := s\<rparr>"
| "apply_event j (WritePid p) = j\<lparr>Pid := p\<rparr>"
| "apply_event j (WriteExitCode c) = j\<lparr>ExitCode := c\<rparr>"
| "apply_event j (WriteFinishTime t) = j\<lparr>FinishTime := t\<rparr>"
| "apply_event j (WriteStdout s) = j\<lparr>Stdout := s\<rparr>"
| "apply_event j (WriteStderr s) = j\<lparr>Stderr := s\<rparr>"
| "apply_event j e = j"

definition run_events :: "Job \<Rightarrow> Event list \<Rightarrow> Job" where
  "run_events j es = foldl apply_event j es"

datatype Exit = Returned | Panicked

text \<open>
  The exit classification after \<open>cmd.Wait\<close> (lines 163 to 179): an error that is an
  \<open>*exec.ExitError\<close> of a process that exited gives the exit code; every error gives the
  error text and \<open>JSFailed\<close>; no error gives \<open>JSFinished\<close>.
\<close>

definition classify :: "error option \<Rightarrow> Event list" where
  "classify r =
     (case r of
        Some err \<Rightarrow>
          (case err of
             ExitError ee \<Rightarrow> (if Exited ee then [WriteExitCode (ExitStatus ee)] else [])
           | ErrorString s \<Rightarrow> [])
          @ [WriteError (Error_text err), WriteStatus JSFailed]
      | None \<Rightarrow> [WriteStatus JSFinished])"

text \<open>
  The override after the classification (lines 182 to 186). \<open>err.Error()\<close> is evaluated
  first: on a \<open>nil\<close> error it panics, and the write of \<open>JSCanceled\<close> is not reached.
\<close>

definition override :: "bool \<Rightarrow> error option \<Rightarrow> Event list \<times> Exit" where
  "override c r =
     (if c then
        (case r of
           None \<Rightarrow> ([EvPanic], Panicked)
         | Some err \<Rightarrow> ([WriteError (Error_text err), WriteStatus JSCanceled], Returned))
      else ([], Returned))"

text \<open>The watcher, when it takes the \<open>ctx.Done()\<close> branch, kills the process.\<close>

definition watcher :: "World \<Rightarrow> Event list" where
  "watcher w = (if canceled w then [EvKill] else [])"

text \<open>The body of \<open>cmdWorker\<close> up to its return or panic, without the deferred function.\<close>

definition cmdWorker_body :: "World \<Rightarrow> Job \<Rightarrow> Event list \<times> Exit" where
  "cmdWorker_body w job =
     (let cmd = buildCmd (goos w) job in
      case startResult w of
        Inl err \<Rightarrow>
          ([EvStart cmd (Inl err), WriteError (Error_text err), WriteStatus JSFailed], Returned)
      | Inr pid \<Rightarrow>
          (let (es, x) = override (canceled w) (waitResult w) in
           ([EvStart cmd (Inr pid), WritePid pid] @ watcher w
              @ [EvWaitReturned (waitResult w), EvCloseDoneC]
              @ classify (waitResult w) @ es, x)))"

text \<open>
  The two buffers at the deferred cleanup: what the child wrote, and nothing when no child
  was started.
\<close>

definition stdout_String :: "World \<Rightarrow> string" where
  "stdout_String w = (case startResult w of Inl err \<Rightarrow> [] | Inr pid \<Rightarrow> stdout_buf w)"

definition stderr_String :: "World \<Rightarrow> string" where
  "stderr_String w = (case startResult w of Inl err \<Rightarrow> [] | Inr pid \<Rightarrow> stderr_buf w)"

text \<open>The deferred function: it runs on every way out of the body, a panic included.\<close>

definition cmdWorker_deferred :: "World \<Rightarrow> Event list" where
  "cmdWorker_deferred w =
     [WriteFinishTime (now w), WriteStdout (stdout_String w), WriteStderr (stderr_String w)]"

definition cmdWorker_trace :: "World \<Rightarrow> Job \<Rightarrow> Event list" where
  "cmdWorker_trace w job = fst (cmdWorker_body w job) @ cmdWorker_deferred w"

definition cmdWorker_exit :: "World \<Rightarrow> Job \<Rightarrow> Exit" where
  "cmdWorker_exit w job = snd (cmdWorker_body w job)"

definition cmdWorker :: "World \<Rightarrow> Job \<Rightarrow> Job" where
  "cmdWorker w job = run_events job (cmdWorker_trace w job)"

section \<open>Observations on a run\<close>

text \<open>The states of the job along a run, the first one before any step.\<close>

fun states :: "Job \<Rightarrow> Event list \<Rightarrow> Job list" where
  "states j [] = [j]"
| "states j (e # es) = j # states (apply_event j e) es"

definition status_history :: "Job \<Rightarrow> Event list \<Rightarrow> JobStatus list" where
  "status_history j es = map Status (states j es)"

text \<open>Once a terminal status is held, every later status is the same one.\<close>

fun settled :: "JobStatus list \<Rightarrow> bool" where
  "settled [] = True"
| "settled (s # ss) = ((terminal s \<longrightarrow> list_all (\<lambda>t. t = s) ss) \<and> settled ss)"

text \<open>
  The same, but for the one change the worker makes by design: \<open>JSFinished\<close> or
  \<open>JSFailed\<close> may still be replaced by \<open>JSCanceled\<close>.
\<close>

fun settled_up_to_cancel :: "JobStatus list \<Rightarrow> bool" where
  "settled_up_to_cancel [] = True"
| "settled_up_to_cancel (s # ss) =
     ((terminal s \<longrightarrow> list_all (\<lambda>t. t = s \<or> t = JSCanceled) ss) \<and> settled_up_to_cancel ss)"

fun status_writes :: "Event list \<Rightarrow> JobStatus list" where
  "status_writes [] = []"
| "status_writes (WriteStatus s # es) = s # status_writes es"
| "status_writes (e # es) = status_writes es"

fun finish_writes :: "Event list \<Rightarrow> int list" where
  "finish_writes [] = []"
| "finish_writes (WriteFinishTime t # es) = t # finish_writes es"
| "finish_writes (e # es) = finish_writes es"

fun is_started :: "Event \<Rightarrow> bool" where
  "is_started (EvStart c (Inr p)) = True"
| "is_started e = False"

definition process_ran :: "Event list \<Rightarrow> bool" where
  "process_ran es = list_ex is_started es"

fun is_wait :: "Event \<Rightarrow> bool" where
  "is_wait (EvWaitReturned r) = True"
| "is_wait e = False"

fun is_pid_write :: "Event \<Rightarrow> bool" where
  "is_pid_write (WritePid p) = True"
| "is_pid_write e = False"

text \<open>
  Every write of the finish time comes after the return of \<open>cmd.Wait\<close>; the flag says
  whether the return has been seen so far.
\<close>

fun finish_after_wait :: "bool \<Rightarrow> Event list \<Rightarrow> bool" where
  "finish_after_wait seen [] = True"
| "finish_after_wait seen (EvWaitReturned r # es) = finish_after_wait True es"
| "finish_after_wait seen (WriteFinishTime t # es) = (seen \<and> finish_after_wait seen es)"
| "finish_after_wait seen (e # es) = finish_after_wait seen es"

section \<open>The handlers\<close>

text \<open>
  \<open>strings.TrimSpace\<close> on the bytes of a string: it removes, at both ends, every UTF-8
  encoding of a white space code point (U+0009 to U+000D, U+0020, U+0085, U+00A0, U+1680,
  U+2000 to U+200A, U+2028, U+2029, U+202F, U+205F, U+3000).
\<close>

definition spaces :: "string list" where
  "spaces =
     [[CHR 0x09], [CHR 0x0A], [CHR 0x0B], [CHR 0x0C], [CHR 0x0D], [CHR 0x20],
      [CHR 0xC2, CHR 0x85], [CHR 0xC2, CHR 0xA0],
      [CHR 0xE1, CHR 0x9A, CHR 0x80],
      [CHR 0xE2, CHR 0x80, CHR 0x80], [CHR 0xE2, CHR 0x80, CHR 0x81],
      [CHR 0xE2, CHR 0x80, CHR 0x82], [CHR 0xE2, CHR 0x80, CHR 0x83],
      [CHR 0xE2, CHR 0x80, CHR 0x84], [CHR 0xE2, CHR 0x80, CHR 0x85],
      [CHR 0xE2, CHR 0x80, CHR 0x86], [CHR 0xE2, CHR 0x80, CHR 0x87],
      [CHR 0xE2, CHR 0x80, CHR 0x88], [CHR 0xE2, CHR 0x80, CHR 0x89],
      [CHR 0xE2, CHR 0x80, CHR 0x8A],
      [CHR 0xE2, CHR 0x80, CHR 0xA8], [CHR 0xE2, CHR 0x80, CHR 0xA9],
      [CHR 0xE2, CHR 0x80, CHR 0xAF], [CHR 0xE2, CHR 0x81, CHR 0x9F],
      [CHR 0xE3, CHR 0x80, CHR 0x80]]"

definition leading_space :: "string \<Rightarrow> nat" where
  "leading_space s =
     (case find (\<lambda>e. take (length e) s = e) spaces of None \<Rightarrow> 0 | Some e \<Rightarrow> length e)"

function TrimLeft :: "string \<Rightarrow> string" where
  "TrimLeft s = (if leading_space s = 0 then s else TrimLeft (drop (leading_space s) s))"
  by pat_completeness auto
termination
proof (relation "measure length")
  show "wf (measure length)" by simp
next
  fix s :: string
  assume a: "leading_space s \<noteq> 0"
  have "s \<noteq> []"
  proof
    assume "s = []"
    then have "leading_space s = 0"
      by (simp add: leading_space_def spaces_def)
    with a show False by simp
  qed
  with a show "(drop (leading_space s) s, s) \<in> measure length" by simp
qed

declare TrimLeft.simps [simp del]

definition trailing_space :: "string \<Rightarrow> nat" where
  "trailing_space s =
     (case find (\<lambda>e. length e \<le> length s \<and> drop (length s - length e) s = e) spaces of
        None \<Rightarrow> 0
      | Some e \<Rightarrow> length e)"

function TrimRight :: "string \<Rightarrow> string" where
  "TrimRight s =
     (if trailing_space s = 0 then s else TrimRight (take (length s - trailing_space s) s))"
  by pat_completeness auto
termination
proof (relation "measure length")
  show "wf (measure length)" by simp
next
  fix s :: string
  assume a: "trailing_space s \<noteq> 0"
  have "s \<noteq> []"
  proof
    assume "s = []"
    then have "trailing_space s = 0"
      by (simp add: trailing_space_def spaces_def)
    with a show False by simp
  qed
  with a show "(take (length s - trailing_space s) s, s) \<in> measure length" by simp
qed

declare TrimRight.simps [simp del]

definition TrimSpace :: "string \<Rightarrow> string" where
  "TrimSpace s = TrimRight (TrimLeft s)"

text \<open>
  Modelled from the spec: the registry \<open>JobBookkeeper\<close> with \<open>Add\<close> and \<open>Get\<close>, the error
  categories and the response envelope (\<open>NewResponse\<close>, \<open>SetError\<close>, \<open>SetData\<close>,
  \<open>ServeJSON\<close>) are declared outside the source files. The registry is the map from
  identifier to job: \<open>Add\<close> inserts under the identifier of the job, \<open>Get\<close> is the point
  lookup, \<open>nil\<close> being \<open>None\<close>. Its expiry sweep plays no part in the handlers below.
\<close>

type_synonym JobBookkeeper = "string \<rightharpoonup> Job"

definition Add :: "JobBookkeeper \<Rightarrow> Job \<Rightarrow> JobBookkeeper" where
  "Add bk job = bk(Id_job job \<mapsto> job)"

definition Get :: "JobBookkeeper \<Rightarrow> string \<Rightarrow> Job option" where
  "Get bk i = bk i"

datatype ErrCode = ECUnknown | ECInvalidParam | ECJobNotFound | ECJobNotRunning

datatype Data = SyncRunCmdRes Job | AsyncRuncmdRes string int | QueryCmdRes Job

text \<open>
  What the handler serves: an error, data, or the empty response of \<open>NewResponse()\<close>.
  \<open>NotServed\<close> is the handler that panicked before \<open>ServeJSON\<close>.
\<close>

datatype Response = SetError ErrCode string | SetData Data | NewResponse | NotServed

record RunCmdReq =
  req_Cmd :: string
  req_Async :: bool
  req_Dir :: string
  req_Env :: "string list"

text \<open>
  The body of a run request: reading it failed, decoding it as JSON failed, or it decoded
  to a request.
\<close>

datatype Body = ReadFailed | UnmarshalFailed | Decoded RunCmdReq

text \<open>
  The job as lines 73 to 79 build it: the zero value of the struct, then the request echo,
  \<open>JSRunning\<close>, the creation time and the finish-time sentinel.
\<close>

definition newJob :: "RunCmdReq \<Rightarrow> int \<Rightarrow> Job" where
  "newJob req t =
     \<lparr>Id_job = [], Cmd = req_Cmd req, Dir = req_Dir req, Env = req_Env req,
      Status = JSRunning, CreateTime = t, FinishTime = 0, Pid = 0,
      Stdout = [], Stderr = [], ExitCode = 0, Error = []\<rparr>"

text \<open>
  \<open>RunCmdHandler\<close>, given the clock, the result of \<open>uuid.NewV4\<close> and, for a synchronous
  run, the world of the worker. In the asynchronous case the worker runs as a goroutine
  of its own, after the response.
\<close>

definition RunCmdHandler ::
  "JobBookkeeper \<Rightarrow> Body \<Rightarrow> int \<Rightarrow> error + string \<Rightarrow> World \<Rightarrow> JobBookkeeper \<times> Response" where
  "RunCmdHandler bk body t u4 w =
     (case body of
        ReadFailed \<Rightarrow> (bk, SetError ECUnknown ''failed to read body'')
      | UnmarshalFailed \<Rightarrow> (bk, SetError ECUnknown ''failed to unmarshall data'')
      | Decoded req \<Rightarrow>
          if req_Cmd req = [] then (bk, SetError ECInvalidParam ''param cmd is empty'')
          else
            (case u4 of
               Inl err \<Rightarrow> (bk, SetError ECUnknown ''failed to generate uuid'')
             | Inr u \<Rightarrow>
                 (let job = (newJob req t)\<lparr>Id_job := u\<rparr>;
                      bk1 = Add bk job
                  in if \<not> req_Async req then
                       (let job1 = cmdWorker w job;
                            bk2 = bk1(Id_job job \<mapsto> job1)
                        in case cmdWorker_exit w job of
                             Returned \<Rightarrow> (bk2, SetData (SyncRunCmdRes job1))
                           | Panicked \<Rightarrow> (bk2, NotServed))
                     else (bk1, SetData (AsyncRuncmdRes (Id_job job) (CreateTime job))))))"

text \<open>\<open>QueryCmdHandler\<close>, on the form value \<open>id\<close> of the request (empty when absent).\<close>

definition QueryCmdHandler :: "JobBookkeeper \<Rightarrow> string \<Rightarrow> JobBookkeeper \<times> Response" where
  "QueryCmdHandler bk form_id =
     (let i = TrimSpace form_id in
      if i = [] then (bk, SetError ECInvalidParam ''param id is empty'')
      else
        (case Get bk i of
           None \<Rightarrow> (bk, SetError ECJobNotFound (''job not found: '' @ i))
         | Some job \<Rightarrow> (bk, SetData (QueryCmdRes job))))"

text \<open>
  \<open>CancelCmdHandler\<close>. It writes no field of any job; its one effect is the call of the
  cancellation handle of the job it found, recorded as \<open>InvokeCancel\<close> with the identifier.
\<close>

datatype Effect = InvokeCancel string

definition CancelCmdHandler ::
  "JobBookkeeper \<Rightarrow> string \<Rightarrow> JobBookkeeper \<times> Effect list \<times> Response" where
  "CancelCmdHandler bk form_id =
     (let i = TrimSpace form_id in
      case Get bk i of
        None \<Rightarrow> (bk, [], SetError ECJobNotFound (''job not found: '' @ i))
      | Some job \<Rightarrow>
          if Status job \<noteq> JSRunning
          then (bk, [], SetError ECJobNotRunning (''job is not running: '' @ i))
          else (bk, [InvokeCancel (Id_job job)], NewResponse))"

text \<open>The error category of a response, if it is an error.\<close>

fun category :: "Response \<Rightarrow> ErrCode option" where
  "category (SetError c m) = Some c"
| "category r = None"

section \<open>Sample inputs\<close>

definition sample_req :: RunCmdReq where
  "sample_req = \<lparr>req_Cmd = ''exit 7'', req_Async = False, req_Dir = [], req_Env = []\<rparr>"

definition sample_job :: Job where
  "sample_job = (newJob sample_req 100)\<lparr>Id_job := ''j1''\<rparr>"

definition sample_world :: World where
  "sample_world =
     \<lparr>goos = ''linux'', startResult = Inr 4242, waitResult = None,
      cancellation = NeverInvoked, now = 105, stdout_buf = ''out'', stderr_buf = []\<rparr>"

section \<open>Facts about the run of the worker\<close>

lemmas worker_defs = cmdWorker_def cmdWorker_trace_def cmdWorker_exit_def cmdWorker_body_def
  cmdWorker_deferred_def run_events_def classify_def override_def watcher_def canceled_def

lemma status_history_Nil: "status_history j [] = [Status j]"
  by (simp add: status_history_def)

lemma status_history_Cons:
  "status_history j (e # es) = Status j # status_history (apply_event j e) es"
  by (simp add: status_history_def)

lemmas step_simps = cmdWorker_deferred_def classify_def override_def watcher_def
  status_history_Cons status_history_Nil terminal_def

lemma trace_start_failed:
  "startResult w = Inl err \<Longrightarrow>
   cmdWorker_trace w job =
     [EvStart (buildCmd (goos w) job) (Inl err), WriteError (Error_text err),
      WriteStatus JSFailed] @ cmdWorker_deferred w"
  by (simp add: cmdWorker_trace_def cmdWorker_body_def)

lemma trace_started:
  "startResult w = Inr pid \<Longrightarrow>
   cmdWorker_trace w job =
     [EvStart (buildCmd (goos w) job) (Inr pid), WritePid pid] @ watcher w
       @ [EvWaitReturned (waitResult w), EvCloseDoneC] @ classify (waitResult w)
       @ fst (override (canceled w) (waitResult w)) @ cmdWorker_deferred w"
  by (simp add: cmdWorker_trace_def cmdWorker_body_def split: prod.splits)

lemma finish_writes_append: "finish_writes (xs @ ys) = finish_writes xs @ finish_writes ys"
  by (induction xs rule: finish_writes.induct) simp_all

lemma finish_writes_body: "finish_writes (fst (cmdWorker_body w job)) = []"
  by (cases "startResult w"; cases "waitResult w"; cases "canceled w")
     (simp_all add: cmdWorker_body_def finish_writes_append step_simps
        split: error.splits)

lemma panics_iff:
  "(cmdWorker_exit w job = Panicked) =
     ((\<exists>pid. startResult w = Inr pid) \<and> canceled w \<and> waitResult w = None)"
  by (cases "startResult w"; cases "waitResult w"; cases "canceled w")
     (simp_all add: cmdWorker_exit_def cmdWorker_body_def override_def)

lemma sample_started: "startResult sample_world = Inr 4242"
  by (simp add: sample_world_def)

section \<open>The exit classification\<close>

text \<open>
  Claim C5. A job whose process was started, whose wait returns no error (the process
  exited with code 0) and whose cancellation handle was never invoked ends with status
  \<open>JSFinished\<close>, exit code 0 and empty error text, and the worker returns normally. The job
  is any job as \<open>RunCmdHandler\<close> builds it: the worker writes neither the exit code nor
  the error text on this path, they are the zero values of the new job.
\<close>

theorem exit_zero_finished:
  assumes "startResult w = Inr pid" and "waitResult w = None"
    and "cancellation w = NeverInvoked"
  shows "Status (cmdWorker w ((newJob req t)\<lparr>Id_job := u\<rparr>)) = JSFinished
       \<and> ExitCode (cmdWorker w ((newJob req t)\<lparr>Id_job := u\<rparr>)) = 0
       \<and> Error (cmdWorker w ((newJob req t)\<lparr>Id_job := u\<rparr>)) = []
       \<and> cmdWorker_exit w ((newJob req t)\<lparr>Id_job := u\<rparr>) = Returned"
  using assms by (simp add: worker_defs newJob_def)

theorem exit_zero_finished_witness:
  "startResult sample_world = Inr 4242 \<and> waitResult sample_world = None
   \<and> cancellation sample_world = NeverInvoked
   \<and> Status (cmdWorker sample_world ((newJob sample_req 100)\<lparr>Id_job := ''j1''\<rparr>)) = JSFinished
   \<and> ExitCode (cmdWorker sample_world ((newJob sample_req 100)\<lparr>Id_job := ''j1''\<rparr>)) = 0
   \<and> Error (cmdWorker sample_world ((newJob sample_req 100)\<lparr>Id_job := ''j1''\<rparr>)) = []"
  using exit_zero_finished
    [where w = sample_world and pid = 4242 and req = sample_req and t = 100 and u = "''j1''"]
  by (simp add: sample_world_def)

text \<open>
  Claim C4. A job whose process exits with a non-zero code \<open>c\<close> (the wait returns an
  exit error of an exited process) and whose cancellation handle was never invoked ends
  with status \<open>JSFailed\<close>, exit code \<open>c\<close> and a non-empty error text.
\<close>

theorem exit_nonzero_failed:
  assumes "startResult w = Inr pid" and "waitResult w = Some (ExitError (ExitedWith c))"
    and "c \<noteq> 0" and "cancellation w = NeverInvoked"
  shows "Status (cmdWorker w job) = JSFailed
       \<and> ExitCode (cmdWorker w job) = c
       \<and> Error (cmdWorker w job) = Error_text (ExitError (ExitedWith c))
       \<and> Error (cmdWorker w job) \<noteq> []
       \<and> cmdWorker_exit w job = Returned"
  using assms by (simp add: worker_defs)

theorem exit_nonzero_failed_witness:
  "Status (cmdWorker (sample_world\<lparr>waitResult := Some (ExitError (ExitedWith 7))\<rparr>) sample_job)
     = JSFailed
   \<and> ExitCode (cmdWorker (sample_world\<lparr>waitResult := Some (ExitError (ExitedWith 7))\<rparr>)
       sample_job) = 7
   \<and> Error (cmdWorker (sample_world\<lparr>waitResult := Some (ExitError (ExitedWith 7))\<rparr>)
       sample_job) = ''exit status 7''"
proof -
  have rendered: "itoa 7 = ''7''"
    by code_simp
  show ?thesis
    using exit_nonzero_failed
      [of "sample_world\<lparr>waitResult := Some (ExitError (ExitedWith 7))\<rparr>" 4242 7 sample_job]
    by (simp add: sample_world_def rendered)
qed

text \<open>
  Claim C6. When the process cannot be started, the worker records the text of the start
  error, sets \<open>JSFailed\<close> and returns: the pid keeps its value, and the run has neither a
  wait nor a write of the pid; before the deferred cleanup it consists of the start, the
  write of the error text and the write of the status.
\<close>

theorem start_failure:
  assumes "startResult w = Inl err"
  shows "Error (cmdWorker w job) = Error_text err
       \<and> Status (cmdWorker w job) = JSFailed
       \<and> Pid (cmdWorker w job) = Pid job
       \<and> cmdWorker_exit w job = Returned
       \<and> \<not> list_ex is_wait (cmdWorker_trace w job)
       \<and> \<not> list_ex is_pid_write (cmdWorker_trace w job)
       \<and> fst (cmdWorker_body w job) =
           [EvStart (buildCmd (goos w) job) (Inl err), WriteError (Error_text err),
            WriteStatus JSFailed]"
  using assms by (simp add: worker_defs)

theorem start_failure_witness:
  "Error (cmdWorker (sample_world\<lparr>startResult := Inl (ErrorString ''exec: not found'')\<rparr>)
      sample_job) = ''exec: not found''
   \<and> Status (cmdWorker (sample_world\<lparr>startResult := Inl (ErrorString ''exec: not found'')\<rparr>)
      sample_job) = JSFailed
   \<and> Pid (cmdWorker (sample_world\<lparr>startResult := Inl (ErrorString ''exec: not found'')\<rparr>)
      sample_job) = 0"
  using start_failure
    [of "sample_world\<lparr>startResult := Inl (ErrorString ''exec: not found'')\<rparr>"
        "ErrorString ''exec: not found''" sample_job]
  by (simp add: sample_world_def sample_job_def newJob_def)

section \<open>Cancellation\<close>

text \<open>
  Claim C1. A job whose watcher set the \<open>canceled\<close> flag should end with status
  \<open>JSCanceled\<close> whatever the exit classification wrote. The worker misses this when the
  wait returned no error: the override evaluates \<open>err.Error()\<close> on the \<open>nil\<close> error before
  it writes the status, so the worker panics and the status stays \<open>JSFinished\<close>.
\<close>

theorem canceled_nil_wait_stays_finished:
  "cmdWorker_exit (sample_world\<lparr>cancellation := WatcherCanceled\<rparr>) sample_job = Panicked
   \<and> Status (cmdWorker (sample_world\<lparr>cancellation := WatcherCanceled\<rparr>) sample_job)
       = JSFinished"
  by (simp add: worker_defs sample_world_def)

text \<open>With an error from the wait, the override does reach \<open>JSCanceled\<close>.\<close>

lemma canceled_wait_error:
  assumes "startResult w = Inr pid" and "canceled w" and "waitResult w = Some err"
  shows "Status (cmdWorker w job) = JSCanceled"
  using assms by (simp add: worker_defs split: error.splits)

text \<open>
  Claim C9. In a run where the process was started and the watcher set the \<open>canceled\<close>
  flag, the override evaluates \<open>err.Error()\<close>: with no error from the wait this is the
  dereference of \<open>nil\<close>, the worker panics (after the classification wrote \<open>JSFinished\<close>);
  with an error from the wait it is well defined, the worker writes the text and
  \<open>JSCanceled\<close> and returns.
\<close>

theorem override_needs_wait_error:
  assumes "startResult w = Inr pid" and "canceled w"
  shows "(waitResult w = None \<longrightarrow>
            cmdWorker_exit w job = Panicked \<and> EvPanic \<in> set (cmdWorker_trace w job)
            \<and> Status (cmdWorker w job) = JSFinished)
       \<and> (\<forall>err. waitResult w = Some err \<longrightarrow>
            cmdWorker_exit w job = Returned \<and> EvPanic \<notin> set (cmdWorker_trace w job)
            \<and> Error (cmdWorker w job) = Error_text err
            \<and> Status (cmdWorker w job) = JSCanceled)"
  using assms by (auto simp add: worker_defs split: error.splits)

theorem override_needs_wait_error_witness:
  "canceled (sample_world\<lparr>cancellation := WatcherCanceled\<rparr>)
   \<and> waitResult (sample_world\<lparr>cancellation := WatcherCanceled\<rparr>) = None
   \<and> EvPanic \<in> set (cmdWorker_trace (sample_world\<lparr>cancellation := WatcherCanceled\<rparr>) sample_job)
   \<and> Error (cmdWorker (sample_world\<lparr>cancellation := WatcherCanceled,
        waitResult := Some (ErrorString ''wait: interrupted'')\<rparr>) sample_job)
       = ''wait: interrupted''"
  using override_needs_wait_error
      [of "sample_world\<lparr>cancellation := WatcherCanceled\<rparr>" 4242 sample_job]
    override_needs_wait_error
      [of "sample_world\<lparr>cancellation := WatcherCanceled,
             waitResult := Some (ErrorString ''wait: interrupted'')\<rparr>" 4242 sample_job]
  by (simp add: sample_world_def canceled_def)

section \<open>The status along a run\<close>

text \<open>
  Claim C2, as stated: once the status holds a terminal value no later write changes it.
  It fails on a canceled run whose wait returned an error: the classification writes
  \<open>JSFailed\<close>, then the override writes \<open>JSCanceled\<close> over it.
\<close>

theorem status_overwritten_when_canceled:
  "\<not> settled (status_history sample_job
      (cmdWorker_trace
         (sample_world\<lparr>waitResult := Some (ExitError (Signaled ''killed'' False)),
            cancellation := WatcherCanceled\<rparr>) sample_job))"
  by (simp add: worker_defs sample_world_def status_history_def sample_job_def newJob_def
      terminal_def)

text \<open>
  Claim C2, amended. For a job that starts as \<open>JSRunning\<close>, a terminal status is only ever
  followed by itself or by \<open>JSCanceled\<close>; in a run whose \<open>canceled\<close> flag is not set it is
  never changed at all. The writes of the status in a run are \<open>JSFinished\<close> alone,
  \<open>JSFailed\<close> alone, or \<open>JSFailed\<close> then \<open>JSCanceled\<close>, the last only when the flag is set.
\<close>

theorem status_forward:
  assumes run: "Status job = JSRunning"
  shows "settled_up_to_cancel (status_history job (cmdWorker_trace w job))
       \<and> (\<not> canceled w \<longrightarrow> settled (status_history job (cmdWorker_trace w job)))
       \<and> status_writes (cmdWorker_trace w job) \<in>
            {[JSFinished], [JSFailed], [JSFailed, JSCanceled]}
       \<and> (status_writes (cmdWorker_trace w job) = [JSFailed, JSCanceled] \<longrightarrow> canceled w)"
proof (cases "startResult w")
  case (Inl err)
  show ?thesis
    unfolding trace_start_failed [OF Inl] using run by (simp add: step_simps)
next
  case (Inr pid)
  show ?thesis
  proof (cases "waitResult w")
    case None
    show ?thesis
      unfolding trace_started [OF Inr] using run None by (simp add: step_simps)
  next
    case (Some e)
    show ?thesis
    proof (cases e)
      case (ExitError ps)
      show ?thesis
        unfolding trace_started [OF Inr] using run Some ExitError by (simp add: step_simps)
    next
      case (ErrorString s)
      show ?thesis
        unfolding trace_started [OF Inr] using run Some ErrorString by (simp add: step_simps)
    qed
  qed
qed

theorem status_forward_witness:
  "Status sample_job = JSRunning
   \<and> \<not> canceled sample_world
   \<and> settled (status_history sample_job (cmdWorker_trace sample_world sample_job))
   \<and> settled_up_to_cancel (status_history sample_job (cmdWorker_trace sample_world sample_job))"
  using status_forward [of sample_job sample_world]
  by (simp add: sample_job_def newJob_def sample_world_def canceled_def)

section \<open>The finish time\<close>

text \<open>
  Claim C3, as stated: the finish time is written only after the process has ended, and
  never on a job for which no process ran. It fails when the start fails: no process ran,
  no wait returned, and the deferred cleanup writes the finish time all the same.
\<close>

theorem finish_time_without_process:
  "finish_writes (cmdWorker_trace
      (sample_world\<lparr>startResult := Inl (ErrorString ''exec: not found'')\<rparr>) sample_job) = [105]
   \<and> \<not> process_ran (cmdWorker_trace
      (sample_world\<lparr>startResult := Inl (ErrorString ''exec: not found'')\<rparr>) sample_job)
   \<and> \<not> finish_after_wait False (cmdWorker_trace
      (sample_world\<lparr>startResult := Inl (ErrorString ''exec: not found'')\<rparr>) sample_job)"
  by (simp add: trace_start_failed cmdWorker_deferred_def sample_world_def process_ran_def)

text \<open>
  Claim C3, amended. In every run the worker writes the finish time exactly once, in its
  deferred cleanup and not in its body, and the job ends with that time. When a process
  was started, the write comes after the return of the wait. When none was started, the
  run is the failed start, the error text, \<open>JSFailed\<close> and then the cleanup with the write.
\<close>

theorem finish_time_once:
  "finish_writes (cmdWorker_trace w job) = [now w]
   \<and> finish_writes (fst (cmdWorker_body w job)) = []
   \<and> FinishTime (cmdWorker w job) = now w
   \<and> (process_ran (cmdWorker_trace w job) \<longrightarrow> finish_after_wait False (cmdWorker_trace w job))
   \<and> (\<not> process_ran (cmdWorker_trace w job) \<longrightarrow>
        cmdWorker_trace w job =
          [EvStart (buildCmd (goos w) job) (startResult w),
           WriteError (Error (cmdWorker w job)), WriteStatus JSFailed,
           WriteFinishTime (now w), WriteStdout [], WriteStderr []])"
proof (cases "startResult w")
  case (Inl err)
  show ?thesis
    by (simp add: cmdWorker_def run_events_def trace_start_failed [OF Inl] Inl
        cmdWorker_body_def cmdWorker_deferred_def process_ran_def
        stdout_String_def stderr_String_def)
next
  case (Inr pid)
  have a: "finish_writes (cmdWorker_trace w job) = [now w]"
    by (simp add: cmdWorker_trace_def finish_writes_append finish_writes_body
        cmdWorker_deferred_def)
  have b: "FinishTime (cmdWorker w job) = now w"
    by (simp add: cmdWorker_def run_events_def cmdWorker_trace_def cmdWorker_deferred_def)
  have c: "process_ran (cmdWorker_trace w job)"
    by (simp add: trace_started [OF Inr] process_ran_def)
  have d: "finish_after_wait False (cmdWorker_trace w job)"
    by (cases "waitResult w"; cases "canceled w")
       (simp_all add: trace_started [OF Inr] step_simps split: error.splits)
  from a b c d show ?thesis by (simp add: finish_writes_body)
qed

theorem finish_time_once_witness:
  "process_ran (cmdWorker_trace sample_world sample_job)
   \<and> finish_after_wait False (cmdWorker_trace sample_world sample_job)
   \<and> finish_writes (cmdWorker_trace sample_world sample_job) = [105]
   \<and> FinishTime (cmdWorker sample_world sample_job) = 105"
proof -
  have ran: "process_ran (cmdWorker_trace sample_world sample_job)"
    by (simp add: trace_started [OF sample_started] process_ran_def)
  have t: "now sample_world = 105"
    by (simp add: sample_world_def)
  from finish_time_once [of sample_world sample_job] ran t show ?thesis
    by simp
qed

section \<open>Facts about the environment of the child\<close>















lemma PWD_key: "entry_key False lower (''PWD='' @ pwd) = Some ''PWD''"
  by (simp add: entry_key_def key_index_def)






section \<open>The cancel and query handlers\<close>

lemma TrimSpace_Nil: "TrimSpace [] = []"
  by (simp add: TrimSpace_def TrimLeft.simps [of "[]"] TrimRight.simps [of "[]"]
      leading_space_def trailing_space_def spaces_def)

lemma TrimSpace_padded: "TrimSpace '' j1  '' = ''j1''"
  by code_simp

lemma TrimSpace_j1: "TrimSpace ''j1'' = ''j1''"
  by code_simp

lemma TrimSpace_zz: "TrimSpace ''zz'' = ''zz''"
  by code_simp

text \<open>
  Claim C7. With \<open>i\<close> the trimmed form value: when \<open>i\<close> is not registered the handler
  answers \<open>ECJobNotFound\<close>; when the job registered under \<open>i\<close> has a status other than
  \<open>JSRunning\<close> it answers \<open>ECJobNotRunning\<close>; in both cases the cancellation handle is not
  invoked. When the job has status \<open>JSRunning\<close> the handle of that job is invoked and the
  empty success response is served; the handle is invoked, and success served, in this
  case only. The registry is the same afterwards in all three cases.
\<close>

theorem cancel_outcomes:
  "(Get bk (TrimSpace f) = None \<longrightarrow>
      CancelCmdHandler bk f =
        (bk, [], SetError ECJobNotFound (''job not found: '' @ TrimSpace f)))
   \<and> (\<forall>job. Get bk (TrimSpace f) = Some job \<and> Status job \<noteq> JSRunning \<longrightarrow>
      CancelCmdHandler bk f =
        (bk, [], SetError ECJobNotRunning (''job is not running: '' @ TrimSpace f)))
   \<and> (\<forall>job. Get bk (TrimSpace f) = Some job \<and> Status job = JSRunning \<longrightarrow>
      CancelCmdHandler bk f = (bk, [InvokeCancel (Id_job job)], NewResponse))
   \<and> ((fst (snd (CancelCmdHandler bk f)) \<noteq> []) =
        (\<exists>job. Get bk (TrimSpace f) = Some job \<and> Status job = JSRunning))
   \<and> ((snd (snd (CancelCmdHandler bk f)) = NewResponse) =
        (\<exists>job. Get bk (TrimSpace f) = Some job \<and> Status job = JSRunning))"
  by (cases "Get bk (TrimSpace f)") (simp_all add: CancelCmdHandler_def)

theorem cancel_outcomes_witness:
  "CancelCmdHandler (Add Map.empty sample_job) ''zz'' =
     (Add Map.empty sample_job, [], SetError ECJobNotFound ''job not found: zz'')
   \<and> CancelCmdHandler (Add Map.empty (sample_job\<lparr>Status := JSFinished\<rparr>)) ''j1'' =
     (Add Map.empty (sample_job\<lparr>Status := JSFinished\<rparr>), [],
      SetError ECJobNotRunning ''job is not running: j1'')
   \<and> CancelCmdHandler (Add Map.empty sample_job) '' j1  '' =
     (Add Map.empty sample_job, [InvokeCancel ''j1''], NewResponse)"
proof -
  have g1: "Get (Add Map.empty sample_job) ''zz'' = None"
    by (simp add: Get_def Add_def sample_job_def)
  have g2: "Get (Add Map.empty (sample_job\<lparr>Status := JSFinished\<rparr>)) ''j1''
              = Some (sample_job\<lparr>Status := JSFinished\<rparr>)"
    by (simp add: Get_def Add_def sample_job_def)
  have g3: "Get (Add Map.empty sample_job) ''j1'' = Some sample_job"
    by (simp add: Get_def Add_def sample_job_def)
  have s: "Status sample_job = JSRunning" "Id_job sample_job = ''j1''"
    by (simp_all add: sample_job_def newJob_def)
  from cancel_outcomes [of "Add Map.empty sample_job" "''zz''"]
    cancel_outcomes [of "Add Map.empty (sample_job\<lparr>Status := JSFinished\<rparr>)" "''j1''"]
    cancel_outcomes [of "Add Map.empty sample_job" "'' j1  ''"]
  show ?thesis
    by (simp add: TrimSpace_zz TrimSpace_j1 TrimSpace_padded g1 g2 g3 s)
qed

text \<open>
  Claim C8. A request whose required input is missing should get \<open>ECInvalidParam\<close> and
  change nothing. The run handler does so for an empty command and the query handler for
  an empty identifier; the cancel handler has no such check: an empty identifier is
  looked up in the registry and answered with \<open>ECJobNotFound\<close>.
\<close>

theorem cancel_empty_id_not_found:
  "CancelCmdHandler (Add Map.empty sample_job) [] =
     (Add Map.empty sample_job, [], SetError ECJobNotFound ''job not found: '')"
  by (simp add: CancelCmdHandler_def TrimSpace_Nil Get_def Add_def sample_job_def)

lemma query_empty_id:
  "TrimSpace f = [] \<Longrightarrow>
   QueryCmdHandler bk f = (bk, SetError ECInvalidParam ''param id is empty'')"
  by (simp add: QueryCmdHandler_def)

lemma run_empty_cmd:
  "req_Cmd req = [] \<Longrightarrow>
   RunCmdHandler bk (Decoded req) t u4 w = (bk, SetError ECInvalidParam ''param cmd is empty'')"
  by (simp add: RunCmdHandler_def)

lemma query_never_writes: "fst (QueryCmdHandler bk f) = bk"
  by (simp add: QueryCmdHandler_def Let_def split: option.splits)

lemma cancel_never_writes: "fst (CancelCmdHandler bk f) = bk"
  by (simp add: CancelCmdHandler_def Let_def split: option.splits)

end
